theory Spec2Isabelle
  imports Main "HOL-Library.Sublist"
begin

section \<open>JavaScript values and the request body\<close>

text \<open>
  The registration handler of \<^verbatim>\<open>index.js\<close> reads \<^verbatim>\<open>req.body\<close>, a JavaScript value
  produced by the JSON body parser. A number is carried by its decimal rendering (the
  text that \<^verbatim>\<open>String(n)\<close> yields), an object by the list of its own properties.
\<close>

datatype jsval =
    JUndefined
  | JNull
  | JBool bool
  | JNum string
  | JStr string
  | JArr "jsval list"
  | JObj "(string \<times> jsval) list"

datatype js_error = TypeError

text \<open>
  \<^verbatim>\<open>data.name\<close>, \<^verbatim>\<open>data.email\<close>, \<^verbatim>\<open>data.password\<close>: reading a property of
  \<^verbatim>\<open>undefined\<close> or \<^verbatim>\<open>null\<close> throws a TypeError; an object yields its own property or
  \<^verbatim>\<open>undefined\<close>; a boolean, a number, a string or an array has none of these three
  properties. (Only these three keys are ever read by the handler.)
\<close>

fun get_prop :: "jsval \<Rightarrow> string \<Rightarrow> js_error + jsval" where
  "get_prop JUndefined k = Inl TypeError"
| "get_prop JNull k = Inl TypeError"
| "get_prop (JObj kvs) k = Inr (case map_of kvs k of None \<Rightarrow> JUndefined | Some v \<Rightarrow> v)"
| "get_prop (JBool b) k = Inr JUndefined"
| "get_prop (JNum r) k = Inr JUndefined"
| "get_prop (JStr s) k = Inr JUndefined"
| "get_prop (JArr vs) k = Inr JUndefined"

section \<open>The environment of one request\<close>

text \<open>
  What the libraries draw from outside the program during one request: the ObjectId
  that \<^verbatim>\<open>new User\<close> generates, the 22 radix-64 characters that encode the 16 random
  bytes of \<^verbatim>\<open>bcrypt.genSalt\<close> (\<open>None\<close> when no random source is available), the
  31-character encoded digest that bcrypt computes from a plain text and a salt, and
  whether the insert reaches the document store.
\<close>

record env =
  objectId :: string
  entropy :: "string option"
  core :: "string \<Rightarrow> string \<Rightarrow> string"
  store_up :: bool

section \<open>bcryptjs\<close>

definition digit_char :: "nat \<Rightarrow> char" where
  "digit_char d =
     (if d = 0 then CHR ''0'' else if d = 1 then CHR ''1'' else if d = 2 then CHR ''2''
      else if d = 3 then CHR ''3'' else if d = 4 then CHR ''4'' else if d = 5 then CHR ''5''
      else if d = 6 then CHR ''6'' else if d = 7 then CHR ''7'' else if d = 8 then CHR ''8''
      else CHR ''9'')"

text \<open>\<^verbatim>\<open>n.toString()\<close> of a natural number.\<close>

fun decimal :: "nat \<Rightarrow> string" where
  "decimal n = (if n < 10 then [digit_char n] else decimal (n div 10) @ [digit_char (n mod 10)])"

declare decimal.simps [simp del]

text \<open>
  Modelled from the spec: \<^verbatim>\<open>bcrypt.genSalt(rounds)\<close> belongs to the bcryptjs
  library, which is not under src/. The spec: the hasher "generates a fresh random salt
  per call", with the cost factor fixed. The salt string is the version tag, the cost
  written with two digits (a leading zero below 10) and the encoded random bytes, as at
  the head of the digest that the README shows.
\<close>

definition bcrypt_genSalt :: "env \<Rightarrow> nat \<Rightarrow> string option" where
  "bcrypt_genSalt e rounds =
     (case entropy e of
        None \<Rightarrow> None
      | Some r \<Rightarrow>
          Some (''$2a$'' @ (if rounds < 10 then ''0'' else []) @ decimal rounds @ ''$'' @ r))"

text \<open>
  Modelled from the spec: \<^verbatim>\<open>bcrypt.hash(plain, salt)\<close> belongs to bcryptjs, not
  under src/. The spec: it "combines salt + plain text to produce a digest string that
  embeds the salt and cost factor so verification is self-contained", and "the same
  inputs with a captured salt reproduce the digest". The digest string is the salt
  followed by the encoded digest.
\<close>

definition bcrypt_hash :: "env \<Rightarrow> string \<Rightarrow> string \<Rightarrow> string" where
  "bcrypt_hash e plain salt = salt @ core e plain salt"

text \<open>
  Modelled from the spec: \<^verbatim>\<open>bcrypt.compare(plain, digest)\<close> belongs to bcryptjs, not
  under src/, and the program never calls it. The spec: verification is "a separate
  compare-by-rehash operation". A digest has 60 characters, the first 29 are the salt;
  the plain text is hashed again under that salt and the result is compared with the
  digest.
\<close>

definition bcrypt_compare :: "env \<Rightarrow> string \<Rightarrow> string \<Rightarrow> bool" where
  "bcrypt_compare e plain digest =
     (length digest = 60 \<and> bcrypt_hash e plain (take 29 digest) = digest)"

section \<open>The User schema (models/User.js)\<close>

text \<open>
  The options that the schema gives a path. All three paths have the type
  \<^verbatim>\<open>String\<close>.
\<close>

record path_options =
  required :: bool
  unique :: bool

definition userSchema :: "(string \<times> path_options) list" where
  "userSchema =
     [(''name'', \<lparr>required = True, unique = False\<rparr>),
      (''email'', \<lparr>required = True, unique = True\<rparr>),
      (''password'', \<lparr>required = True, unique = False\<rparr>)]"

text \<open>
  A path of a document under construction: not set, a string, or a value that could
  not be cast to the path's type \<^verbatim>\<open>String\<close>.
\<close>

datatype path_value = Unset | Val string | CastFailed

text \<open>
  Mongoose's cast to \<^verbatim>\<open>String\<close> (library code, not under src/; the spec speaks of
  text values only): \<^verbatim>\<open>undefined\<close> and \<^verbatim>\<open>null\<close> leave the path
  unset, a string is kept as it is, a number or a boolean is converted with
  \<^verbatim>\<open>toString()\<close>, an array or a plain object is refused (an object that carries a
  non-empty string \<^verbatim>\<open>_id\<close> is taken for a document and replaced by that \<^verbatim>\<open>_id\<close>).
\<close>

fun cast_string :: "jsval \<Rightarrow> path_value" where
  "cast_string JUndefined = Unset"
| "cast_string JNull = Unset"
| "cast_string (JStr s) = Val s"
| "cast_string (JNum r) = Val r"
| "cast_string (JBool b) = Val (if b then ''true'' else ''false'')"
| "cast_string (JArr vs) = CastFailed"
| "cast_string (JObj kvs) =
     (case map_of kvs ''_id'' of
        Some (JStr i) \<Rightarrow> (if i = [] then CastFailed else Val i)
      | _ \<Rightarrow> CastFailed)"

record document =
  d_name :: path_value
  d_email :: path_value
  d_password :: path_value
  d_id :: string

definition get_path :: "document \<Rightarrow> string \<Rightarrow> path_value" where
  "get_path d k =
     (if k = ''name'' then d_name d
      else if k = ''email'' then d_email d
      else if k = ''password'' then d_password d
      else Unset)"

text \<open>
  \<^verbatim>\<open>new User({name: .., email: .., password: ..})\<close>: the three values are cast to the
  type of their paths, and the document gets its \<^verbatim>\<open>_id\<close>.
\<close>

definition new_User :: "env \<Rightarrow> jsval \<Rightarrow> jsval \<Rightarrow> jsval \<Rightarrow> document" where
  "new_User e n em pw =
     \<lparr>d_name = cast_string n, d_email = cast_string em, d_password = cast_string pw,
      d_id = objectId e\<rparr>"

datatype save_error =
    ValidationError "string list"
  | HashingError
  | DuplicateKeyError
  | ConnectivityError

text \<open>
  Modelled from the spec: how Mongoose enforces \<^verbatim>\<open>required: true\<close> is library code,
  not under src/. The spec: name is "free-form text, required, non-empty", and so are
  email and password ("required"). The value must be a string of non-zero length.
\<close>

fun checkRequired :: "path_value \<Rightarrow> bool" where
  "checkRequired (Val s) = (s \<noteq> [])"
| "checkRequired Unset = False"
| "checkRequired CastFailed = False"

text \<open>
  A path is invalid when its value could not be cast, or when the schema requires it
  and the value does not pass \<open>checkRequired\<close>.
\<close>

definition path_invalid :: "path_options \<Rightarrow> path_value \<Rightarrow> bool" where
  "path_invalid opts v = (v = CastFailed \<or> (required opts \<and> \<not> checkRequired v))"

definition invalid_paths :: "document \<Rightarrow> string list" where
  "invalid_paths d =
     map fst (filter (\<lambda>(k, opts). path_invalid opts (get_path d k)) userSchema)"

text \<open>A document that passed validation, and as it is stored.\<close>

record user =
  u_name :: string
  u_email :: string
  u_password :: string
  u_id :: string
  u_v :: nat

definition user_path :: "user \<Rightarrow> string \<Rightarrow> string" where
  "user_path u k =
     (if k = ''name'' then u_name u
      else if k = ''email'' then u_email u
      else if k = ''password'' then u_password u
      else [])"

fun val_of :: "path_value \<Rightarrow> string" where
  "val_of (Val s) = s"
| "val_of Unset = []"
| "val_of CastFailed = []"

text \<open>
  Modelled from the spec: Mongoose's validation is library code, not under src/. The
  spec: the store "validates presence of name, email, password before attempting
  persistence; absence of any required field fails with a ValidationError". The error
  names the invalid paths. A new document is saved with the version key \<^verbatim>\<open>__v\<close> 0.
\<close>

definition validate :: "document \<Rightarrow> save_error + user" where
  "validate d =
     (if invalid_paths d = []
      then Inr \<lparr>u_name = val_of (d_name d), u_email = val_of (d_email d),
                u_password = val_of (d_password d), u_id = d_id d, u_v = 0\<rparr>
      else Inl (ValidationError (invalid_paths d)))"

section \<open>The store and the trace of effects\<close>

datatype event =
    Validate
  | GenSalt
  | Hash
  | InsertOne
  | ConsoleLog jsval
  | ConsoleError save_error
  | Respond nat jsval

record world =
  users :: "user list"
  trace :: "event list"

definition emit :: "event list \<Rightarrow> world \<Rightarrow> world" where
  "emit evs w = w\<lparr>trace := trace w @ evs\<rparr>"

text \<open>
  The hook of \<^verbatim>\<open>userSchema.pre('save')\<close>: a salt of cost 10, the digest of
  \<^verbatim>\<open>this.password\<close> under it, the digest assigned to \<^verbatim>\<open>this.password\<close>. A salt
  that cannot be generated rejects the save.
\<close>

definition pre_save :: "env \<Rightarrow> world \<Rightarrow> user \<Rightarrow> (save_error + user) \<times> world" where
  "pre_save e w u =
     (case bcrypt_genSalt e 10 of
        None \<Rightarrow> (Inl HashingError, emit [GenSalt] w)
      | Some salt \<Rightarrow>
          (let plainTextPassword = u_password u;
               encryptedPassword = bcrypt_hash e plainTextPassword salt
           in (Inr (u\<lparr>u_password := encryptedPassword\<rparr>), emit [GenSalt, Hash] w)))"

text \<open>
  Modelled from the spec: the unique indexes of the document store are not under src/.
  The spec: the store "enforces a uniqueness constraint on email", and the id is a
  "store-assigned unique identifier". A document collides with the collection when its
  \<^verbatim>\<open>_id\<close> is taken, or when a path that the schema declares \<^verbatim>\<open>unique\<close> has a value
  that a stored document has.
\<close>

definition duplicate_key :: "user list \<Rightarrow> user \<Rightarrow> bool" where
  "duplicate_key coll u =
     (u_id u \<in> set (map u_id coll) \<or>
      list_ex (\<lambda>(k, opts). unique opts \<and> user_path u k \<in> set (map (\<lambda>v. user_path v k) coll))
        userSchema)"

text \<open>
  Modelled from the spec: the insert of the store's driver is not under src/. The spec:
  "a duplicate fails with a DuplicateKeyError, leaving existing data untouched"; a store
  unreachable at write time is a ConnectivityError; "exactly one document is created in
  the backing store per successful call".
\<close>

definition insertOne :: "env \<Rightarrow> world \<Rightarrow> user \<Rightarrow> (save_error + user) \<times> world" where
  "insertOne e w u =
     (let w1 = emit [InsertOne] w in
      if \<not> store_up e then (Inl ConnectivityError, w1)
      else if duplicate_key (users w) u then (Inl DuplicateKeyError, w1)
      else (Inr u, w1\<lparr>users := users w @ [u]\<rparr>))"

text \<open>
  Modelled from the spec: \<^verbatim>\<open>save\<close> of a Mongoose document is library code, not under
  src/. The spec: validation comes "before attempting persistence", and "before the
  write" the password is transformed by the hasher. So: validation, then the pre-save
  hook of User.js, then the insert; the first failure rejects the save.
\<close>

definition save :: "env \<Rightarrow> world \<Rightarrow> document \<Rightarrow> (save_error + user) \<times> world" where
  "save e w d =
     (case validate d of
        Inl err \<Rightarrow> (Inl err, emit [Validate] w)
      | Inr u \<Rightarrow>
          (case pre_save e (emit [Validate] w) u of
             (Inl err, w1) \<Rightarrow> (Inl err, w1)
           | (Inr hashed, w1) \<Rightarrow> insertOne e w1 hashed))"

text \<open>
  The store's \<^verbatim>\<open>create\<close>, as the handler performs it: a new document from the three
  values, saved.
\<close>

definition create :: "env \<Rightarrow> world \<Rightarrow> jsval \<Rightarrow> jsval \<Rightarrow> jsval \<Rightarrow> (save_error + user) \<times> world" where
  "create e w n em pw = save e w (new_User e n em pw)"

text \<open>
  A run of create calls, one after the other on the same store: each call has its own
  environment and its three values.
\<close>

fun creates :: "(env \<times> jsval \<times> jsval \<times> jsval) list \<Rightarrow> world \<Rightarrow> world" where
  "creates [] w = w"
| "creates ((e, n, em, pw) # calls) w = creates calls (snd (create e w n em pw))"

section \<open>The registration handler (index.js)\<close>

text \<open>\<^verbatim>\<open>res.json(savedUser)\<close> serialises the document with its \<^verbatim>\<open>_id\<close> and \<^verbatim>\<open>__v\<close>.\<close>

definition toJSON :: "user \<Rightarrow> jsval" where
  "toJSON u =
     JObj [(''name'', JStr (u_name u)), (''email'', JStr (u_email u)),
           (''password'', JStr (u_password u)), (''_id'', JStr (u_id u)),
           (''__v'', JNum (decimal (u_v u)))]"

definition failure_body :: jsval where
  "failure_body = JObj [(''error'', JStr ''Failed to save user'')]"

text \<open>
  How a call of the asynchronous handler ends: its promise is fulfilled, or it is
  rejected with the error thrown inside it.
\<close>

datatype completion = Returned | Threw js_error

text \<open>
  The part of the handler inside \<^verbatim>\<open>try\<close>/\<^verbatim>\<open>catch\<close>: save the user; log and send the
  saved user, or log the error and send status 500 with the fixed body. A response sent
  without \<^verbatim>\<open>res.status\<close> has status 200.
\<close>

definition try_save :: "env \<Rightarrow> world \<Rightarrow> document \<Rightarrow> completion \<times> world" where
  "try_save e w user =
     (case save e w user of
        (Inr savedUser, w1) \<Rightarrow>
          (Returned, emit [ConsoleLog (toJSON savedUser), Respond 200 (toJSON savedUser)] w1)
      | (Inl err, w1) \<Rightarrow>
          (Returned, emit [ConsoleError err, Respond 500 failure_body] w1))"

text \<open>
  \<^verbatim>\<open>app.post('/register', async (req, res) => ...)\<close> on \<^verbatim>\<open>req.body\<close>: the three
  property reads and \<^verbatim>\<open>new User\<close> stand before the \<^verbatim>\<open>try\<close>.
\<close>

definition register :: "env \<Rightarrow> world \<Rightarrow> jsval \<Rightarrow> completion \<times> world" where
  "register e w data =
     (case get_prop data ''name'' of
        Inl err \<Rightarrow> (Threw err, w)
      | Inr n \<Rightarrow>
          (case get_prop data ''email'' of
             Inl err \<Rightarrow> (Threw err, w)
           | Inr em \<Rightarrow>
               (case get_prop data ''password'' of
                  Inl err \<Rightarrow> (Threw err, w)
                | Inr pw \<Rightarrow> try_save e w (new_User e n em pw))))"

text \<open>The responses sent so far, in order.\<close>

fun responses :: "event list \<Rightarrow> (nat \<times> jsval) list" where
  "responses [] = []"
| "responses (Respond st b # evs) = (st, b) # responses evs"
| "responses (ev # evs) = responses evs"

section \<open>Startup (index.js)\<close>

datatype 'e promise = Fulfilled | Rejected 'e

datatype connect_error = UriNotAString | ConnectFailure

datatype console_line = Out string | Err string connect_error

record process =
  console :: "console_line list"
  listening :: "nat option"
  exited :: bool

definition port :: nat where
  "port = 3000"

text \<open>
  \<^verbatim>\<open>mongoose.connect(atlasUrl, ..)\<close> returns a promise. \<^verbatim>\<open>process.env.ATLAS_URL\<close>
  may be absent, and a string may or may not lead to a connection: which strings do is
  the parameter \<open>connects\<close>.
\<close>

definition mongoose_connect :: "(string \<Rightarrow> bool) \<Rightarrow> string option \<Rightarrow> connect_error promise" where
  "mongoose_connect connects atlasUrl =
     (case atlasUrl of
        None \<Rightarrow> Rejected UriNotAString
      | Some u \<Rightarrow> if connects u then Fulfilled else Rejected ConnectFailure)"

definition console_log :: "string \<Rightarrow> process \<Rightarrow> process" where
  "console_log s p = p\<lparr>console := console p @ [Out s]\<rparr>"

definition console_error :: "string \<Rightarrow> connect_error \<Rightarrow> process \<Rightarrow> process" where
  "console_error s err p = p\<lparr>console := console p @ [Err s err]\<rparr>"

text \<open>\<^verbatim>\<open>.then(f)\<close> runs \<open>f\<close> on fulfilment and passes a rejection on.\<close>

fun then_p :: "(process \<Rightarrow> process) \<Rightarrow> 'e promise \<times> process \<Rightarrow> 'e promise \<times> process" where
  "then_p f (Fulfilled, p) = (Fulfilled, f p)"
| "then_p f (Rejected err, p) = (Rejected err, p)"

text \<open>\<^verbatim>\<open>.catch(g)\<close> runs \<open>g\<close> on rejection, which is then handled.\<close>

fun catch_p :: "('e \<Rightarrow> process \<Rightarrow> process) \<Rightarrow> 'e promise \<times> process \<Rightarrow> 'e promise \<times> process" where
  "catch_p g (Fulfilled, p) = (Fulfilled, p)"
| "catch_p g (Rejected err, p) = (Fulfilled, g err p)"

text \<open>A rejection that no handler took ends the process.\<close>

fun settle :: "'e promise \<times> process \<Rightarrow> process" where
  "settle (Fulfilled, p) = p"
| "settle (Rejected err, p) = p\<lparr>exited := True\<rparr>"

definition app_listen :: "nat \<Rightarrow> process \<Rightarrow> process" where
  "app_listen pt p =
     console_log (''Server is running at http://localhost:'' @ decimal pt)
       (p\<lparr>listening := Some pt\<rparr>)"

text \<open>
  The script from top to bottom: the connection is started, the routes are registered,
  the server listens; the callbacks of the connection promise run afterwards.
\<close>

definition startup :: "(string \<Rightarrow> bool) \<Rightarrow> string option \<Rightarrow> process" where
  "startup connects atlasUrl =
     (let p0 = \<lparr>console = [], listening = None, exited = False\<rparr>;
          connecting = mongoose_connect connects atlasUrl;
          p1 = app_listen port p0
      in settle
           (catch_p (\<lambda>error. console_error ''Error connecting to MongoDB:'' error)
              (then_p (console_log ''Connected to MongoDB'') (connecting, p1))))"

section \<open>Sample inputs\<close>

text \<open>
  Three requests' environments (the digest function is a stand-in of the right length), the
  empty collection, the request of the README, its document after validation, and the
  stored user and the collection after it.
\<close>

definition env0 :: env where
  "env0 = \<lparr>objectId = ''675aff39e60f0acb0444c417'', entropy = Some ''Zb3BwzjesDmL9HZrZNKW6e'',
           core = (\<lambda>p s. ''xxxxxxxxxxxxxxxxxxxxxxxxxxxxxxx''), store_up = True\<rparr>"

definition env1 :: env where
  "env1 = \<lparr>objectId = ''675aff39e60f0acb0444c418'', entropy = Some ''N9qo8uLOickgx2ZMRZoMye'',
           core = (\<lambda>p s. ''xxxxxxxxxxxxxxxxxxxxxxxxxxxxxxx''), store_up = True\<rparr>"

definition env2 :: env where
  "env2 = \<lparr>objectId = ''675aff39e60f0acb0444c419'', entropy = Some ''KIXQlbUw8mDrfmGIiDAO2u'',
           core = (\<lambda>p s. ''xxxxxxxxxxxxxxxxxxxxxxxxxxxxxxx''), store_up = True\<rparr>"

definition world0 :: world where
  "world0 = \<lparr>users = [], trace = []\<rparr>"

definition signup :: jsval where
  "signup = JObj [(''name'', JStr ''Jennifer''), (''email'', JStr ''jen@example.com''),
                  (''password'', JStr ''secret123'')]"

definition applicant :: user where
  "applicant = \<lparr>u_name = ''Jennifer'', u_email = ''jen@example.com'',
     u_password = ''secret123'', u_id = ''675aff39e60f0acb0444c417'', u_v = 0\<rparr>"

definition jennifer :: user where
  "jennifer = \<lparr>u_name = ''Jennifer'', u_email = ''jen@example.com'',
     u_password = ''$2a$10$Zb3BwzjesDmL9HZrZNKW6exxxxxxxxxxxxxxxxxxxxxxxxxxxxxxx'',
     u_id = ''675aff39e60f0acb0444c417'', u_v = 0\<rparr>"

definition world1 :: world where
  "world1 = \<lparr>users = [jennifer], trace = [Validate, GenSalt, Hash, InsertOne]\<rparr>"

section \<open>What a save does\<close>

lemma responses_append: "responses (xs @ ys) = responses xs @ responses ys"
  by (induction xs rule: responses.induct) auto

lemma decimal_10: "decimal 10 = ''10''"
  by (simp add: decimal.simps digit_char_def)

lemma genSalt_10: "bcrypt_genSalt e 10 = map_option (\<lambda>r. ''$2a$10$'' @ r) (entropy e)"
  by (simp add: bcrypt_genSalt_def decimal_10 split: option.splits)

lemma invalid_paths_eq:
  "invalid_paths d =
     (if checkRequired (d_name d) then [] else [''name'']) @
     (if checkRequired (d_email d) then [] else [''email'']) @
     (if checkRequired (d_password d) then [] else [''password''])"
  by (cases "d_name d"; cases "d_email d"; cases "d_password d")
     (simp_all add: invalid_paths_def userSchema_def path_invalid_def get_path_def)

lemma duplicate_key_eq:
  "duplicate_key coll u \<longleftrightarrow> u_id u \<in> u_id ` set coll \<or> u_email u \<in> u_email ` set coll"
  by (simp add: duplicate_key_def userSchema_def user_path_def)

lemma validate_Inr:
  "validate d = Inr u \<longleftrightarrow>
     (\<exists>n em p. d_name d = Val n \<and> n \<noteq> [] \<and> d_email d = Val em \<and> em \<noteq> [] \<and>
        d_password d = Val p \<and> p \<noteq> [] \<and>
        u = \<lparr>u_name = n, u_email = em, u_password = p, u_id = d_id d, u_v = 0\<rparr>)"
  by (cases "d_name d"; cases "d_email d"; cases "d_password d")
     (auto simp: validate_def invalid_paths_eq)

text \<open>The three ways a save ends before the insert, and the insert itself.\<close>

lemma save_invalid:
  "invalid_paths d \<noteq> [] \<Longrightarrow>
     save e w d = (Inl (ValidationError (invalid_paths d)), emit [Validate] w)"
  by (simp add: save_def validate_def)

lemma save_no_salt:
  "invalid_paths d = [] \<Longrightarrow> entropy e = None \<Longrightarrow>
     save e w d = (Inl HashingError, emit [Validate, GenSalt] w)"
  by (simp add: save_def validate_def pre_save_def bcrypt_genSalt_def emit_def)

lemma save_insert:
  "validate d = Inr u \<Longrightarrow> bcrypt_genSalt e 10 = Some salt \<Longrightarrow>
     save e w d =
       insertOne e (emit [Validate, GenSalt, Hash] w)
         (u\<lparr>u_password := bcrypt_hash e (u_password u) salt\<rparr>)"
  by (simp add: save_def pre_save_def emit_def Let_def)

lemma insertOne_cases:
  "insertOne e w u = (r, w1) \<Longrightarrow>
     trace w1 = trace w @ [InsertOne] \<and>
     ((\<exists>err. r = Inl err \<and> users w1 = users w) \<or>
      (r = Inr u \<and> users w1 = users w @ [u] \<and> store_up e \<and>
       u_id u \<notin> u_id ` set (users w) \<and> u_email u \<notin> u_email ` set (users w)))"
  by (auto simp: insertOne_def duplicate_key_eq emit_def Let_def split: if_splits)

lemma save_trace:
  assumes "save e w d = (r, w1)"
  shows "\<exists>evs. trace w1 = trace w @ evs \<and> responses evs = []"
proof (cases "invalid_paths d = []")
  case False
  with assms show ?thesis by (auto simp: save_invalid emit_def)
next
  case valid: True
  show ?thesis
  proof (cases "entropy e")
    case None
    with valid assms show ?thesis by (auto simp: save_no_salt emit_def)
  next
    case (Some r')
    from valid obtain u where u: "validate d = Inr u" by (auto simp: validate_def)
    from Some have "bcrypt_genSalt e 10 = Some (''$2a$10$'' @ r')" by (simp add: genSalt_10)
    from save_insert [OF u this] assms
    have "insertOne e (emit [Validate, GenSalt, Hash] w)
            (u\<lparr>u_password := bcrypt_hash e (u_password u) (''$2a$10$'' @ r')\<rparr>) = (r, w1)"
      by simp
    from insertOne_cases [OF this]
    have "trace w1 = trace w @ [Validate, GenSalt, Hash, InsertOne]"
      by (simp add: emit_def)
    then show ?thesis by simp
  qed
qed

lemma save_responses:
  "save e w d = (r, w1) \<Longrightarrow> responses (trace w1) = responses (trace w)"
  using save_trace [of e w d r w1] by (auto simp: responses_append)

lemma save_success:
  assumes "save e w d = (Inr u, w1)"
  shows "\<exists>n em p salt. d_name d = Val n \<and> d_email d = Val em \<and> d_password d = Val p \<and>
            bcrypt_genSalt e 10 = Some salt \<and>
            u = \<lparr>u_name = n, u_email = em, u_password = bcrypt_hash e p salt,
                 u_id = d_id d, u_v = 0\<rparr> \<and>
            users w1 = users w @ [u] \<and>
            trace w1 = trace w @ [Validate, GenSalt, Hash, InsertOne]"
proof -
  have valid: "invalid_paths d = []"
    using assms save_invalid [of d e w] by (cases "invalid_paths d = []") auto
  then obtain u0 where u0: "validate d = Inr u0" by (auto simp: validate_def)
  have "entropy e \<noteq> None"
    using assms save_no_salt [OF valid, of e w] by (cases "entropy e") auto
  then obtain salt where salt: "bcrypt_genSalt e 10 = Some salt"
    by (auto simp: genSalt_10)
  let ?h = "u0\<lparr>u_password := bcrypt_hash e (u_password u0) salt\<rparr>"
  have ins: "insertOne e (emit [Validate, GenSalt, Hash] w) ?h = (Inr u, w1)"
    using save_insert [OF u0 salt, of w] assms by simp
  from insertOne_cases [OF ins]
  have "u = ?h" "users w1 = users w @ [u]"
    "trace w1 = trace w @ [Validate, GenSalt, Hash, InsertOne]"
    by (auto simp: emit_def)
  with u0 salt show ?thesis
    by (auto simp: validate_Inr)
qed

lemma save_failure:
  assumes "save e w d = (Inl err, w1)"
  shows "users w1 = users w
         \<and> err = (if invalid_paths d \<noteq> [] then ValidationError (invalid_paths d)
                  else if entropy e = None then HashingError
                  else if \<not> store_up e then ConnectivityError
                  else DuplicateKeyError)"
proof (cases "invalid_paths d = []")
  case False
  with assms show ?thesis by (auto simp: save_invalid emit_def)
next
  case valid: True
  show ?thesis
  proof (cases "entropy e")
    case None
    with valid assms show ?thesis by (auto simp: save_no_salt emit_def)
  next
    case (Some r)
    from valid obtain u where u: "validate d = Inr u" by (auto simp: validate_def)
    from Some have "bcrypt_genSalt e 10 = Some (''$2a$10$'' @ r)" by (simp add: genSalt_10)
    from save_insert [OF u this, of w] assms
    have "insertOne e (emit [Validate, GenSalt, Hash] w)
            (u\<lparr>u_password := bcrypt_hash e (u_password u) (''$2a$10$'' @ r)\<rparr>) = (Inl err, w1)"
      by simp
    then show ?thesis using valid Some
      by (auto simp: insertOne_def emit_def Let_def split: if_splits)
  qed
qed

lemma save_users_grow:
  "save e w d = (r, w1) \<Longrightarrow> set (users w) \<subseteq> set (users w1)"
  using save_failure [of e w d _ w1] save_success [of e w d _ w1]
  by (cases r) auto

lemma creates_users_grow: "set (users w) \<subseteq> set (users (creates calls w))"
proof (induction calls arbitrary: w)
  case Nil
  show ?case by simp
next
  case (Cons c calls)
  obtain e n em pw where c: "c = (e, n, em, pw)" by (cases c)
  have "set (users w) \<subseteq> set (users (snd (create e w n em pw)))"
    using save_users_grow [of e w "new_User e n em pw"]
    by (cases "save e w (new_User e n em pw)") (auto simp: create_def)
  also have "\<dots> \<subseteq> set (users (creates calls (snd (create e w n em pw))))"
    by (rule Cons.IH)
  finally show ?case by (simp add: c)
qed

section \<open>Missing fields\<close>

lemma invalid_paths_unset:
  "d_name d = Unset \<or> d_email d = Unset \<or> d_password d = Unset \<Longrightarrow> invalid_paths d \<noteq> []"
  by (auto simp: invalid_paths_eq)

text \<open>
  C3. A create call in which name, email or password is absent fails with a
  ValidationError; the collection is unchanged and no insert is attempted: validation
  is the only effect.
\<close>

theorem create_missing_field:
  assumes "n = JUndefined \<or> em = JUndefined \<or> pw = JUndefined"
  shows "\<exists>ps w' evs. create e w n em pw = (Inl (ValidationError ps), w')
           \<and> ps \<noteq> [] \<and> users w' = users w
           \<and> trace w' = trace w @ evs \<and> InsertOne \<notin> set evs"
proof -
  let ?d = "new_User e n em pw"
  have "d_name ?d = Unset \<or> d_email ?d = Unset \<or> d_password ?d = Unset"
    using assms by (auto simp: new_User_def)
  then have "invalid_paths ?d \<noteq> []" by (rule invalid_paths_unset)
  then have "create e w n em pw = (Inl (ValidationError (invalid_paths ?d)), emit [Validate] w)"
    by (simp add: create_def save_def validate_def)
  moreover have "users (emit [Validate] w) = users w"
    and "trace (emit [Validate] w) = trace w @ [Validate]"
    by (simp_all add: emit_def)
  ultimately show ?thesis
    using \<open>invalid_paths ?d \<noteq> []\<close> by fastforce
qed

theorem create_missing_field_witness:
  "\<exists>ps w' evs. create env0 world0 (JStr ''Jennifer'') JUndefined (JStr ''secret123'')
           = (Inl (ValidationError ps), w')
           \<and> ps \<noteq> [] \<and> users w' = users world0
           \<and> trace w' = trace world0 @ evs \<and> InsertOne \<notin> set evs"
  using create_missing_field [where n = "JStr ''Jennifer''" and em = JUndefined
      and pw = "JStr ''secret123''" and e = env0 and w = world0]
  by simp

section \<open>Registration with a fresh email\<close>

text \<open>
  C2. For valid input (name, email and password are non-empty strings) whose email is
  not yet in the collection, create returns the stored user: its name and email are the
  input's, and its password is the digest of the input password under the salt just
  generated, which is not the plain text. The environment is the normal one: the id is
  unused, a salt could be generated, the store is reached. The salt is fresh: it is
  generated after the request was read, so the submitted password does not begin with it.
\<close>

theorem create_fresh_email:
  assumes valid: "name \<noteq> []" "email \<noteq> []" "plain \<noteq> []"
    and fresh_email: "email \<notin> u_email ` set (users w)"
    and fresh_id: "objectId e \<notin> u_id ` set (users w)"
    and salt: "bcrypt_genSalt e 10 = Some salt"
    and up: "store_up e"
    and fresh_salt: "\<not> prefix salt plain"
  shows "\<exists>u w'. create e w (JStr name) (JStr email) (JStr plain) = (Inr u, w')
           \<and> u_name u = name \<and> u_email u = email
           \<and> u_password u = bcrypt_hash e plain salt \<and> u_password u \<noteq> plain
           \<and> users w' = users w @ [u]"
proof -
  let ?d = "new_User e (JStr name) (JStr email) (JStr plain)"
  let ?u = "\<lparr>u_name = name, u_email = email, u_password = plain, u_id = objectId e, u_v = 0\<rparr>"
  let ?h = "?u\<lparr>u_password := bcrypt_hash e plain salt\<rparr>"
  have v: "validate ?d = Inr ?u"
    using valid by (simp add: validate_Inr new_User_def)
  have "save e w ?d = insertOne e (emit [Validate, GenSalt, Hash] w) ?h"
    using save_insert [OF v salt, of w] by simp
  also have "\<dots> = (Inr ?h, (emit [Validate, GenSalt, Hash, InsertOne] w)\<lparr>users := users w @ [?h]\<rparr>)"
    using fresh_email fresh_id up by (simp add: insertOne_def duplicate_key_eq emit_def Let_def)
  finally have c: "create e w (JStr name) (JStr email) (JStr plain)
      = (Inr ?h, (emit [Validate, GenSalt, Hash, InsertOne] w)\<lparr>users := users w @ [?h]\<rparr>)"
    by (simp add: create_def)
  have "bcrypt_hash e plain salt \<noteq> plain"
  proof
    assume "bcrypt_hash e plain salt = plain"
    then have "plain = salt @ core e plain salt" by (simp add: bcrypt_hash_def)
    then have "prefix salt plain" by (rule prefixI)
    with fresh_salt show False by contradiction
  qed
  with c show ?thesis by (simp add: emit_def)
qed

theorem create_fresh_email_witness:
  "\<exists>u w'. create env0 world0 (JStr ''Jennifer'') (JStr ''jen@example.com'') (JStr ''secret123'')
             = (Inr u, w')
           \<and> u_name u = ''Jennifer'' \<and> u_email u = ''jen@example.com''
           \<and> u_password u = bcrypt_hash env0 ''secret123'' ''$2a$10$Zb3BwzjesDmL9HZrZNKW6e''
           \<and> u_password u \<noteq> ''secret123''
           \<and> users w' = users world0 @ [u]"
  by (rule create_fresh_email)
     (simp_all add: env0_def world0_def genSalt_10)

section \<open>The same email twice\<close>

lemma create_jennifer:
  "create env0 world0 (JStr ''Jennifer'') (JStr ''jen@example.com'') (JStr ''secret123'')
     = (Inr jennifer, world1)"
  by (simp add: create_def save_def validate_def invalid_paths_eq new_User_def pre_save_def
      genSalt_10 bcrypt_hash_def insertOne_def duplicate_key_eq emit_def env0_def world0_def
      jennifer_def world1_def Let_def)

text \<open>
  C4 as stated fails where the second call does not reach the insert: a second
  registration with the email of a stored user, but without a name, fails validation;
  its error is a ValidationError, not a DuplicateKeyError.
\<close>

theorem second_create_not_duplicate_key:
  "create env0 world0 (JStr ''Jennifer'') (JStr ''jen@example.com'') (JStr ''secret123'')
     = (Inr jennifer, world1)
   \<and> fst (create env1 world1 JUndefined (JStr ''jen@example.com'') (JStr ''hunter2''))
     = Inl (ValidationError [''name''])
   \<and> fst (create env1 world1 JUndefined (JStr ''jen@example.com'') (JStr ''hunter2''))
     \<noteq> Inl DuplicateKeyError"
  by (simp add: create_jennifer)
     (simp add: create_def save_def validate_def invalid_paths_eq new_User_def)

text \<open>
  A create call whose email is the email of a stored user fails and leaves the
  collection as it is. Its error is that of the first step that fails: validation, the
  salt, the reach of the store, and at last the duplicate key.
\<close>

lemma create_email_taken:
  assumes stored: "u1 \<in> set (users w)" and same: "cast_string em = Val (u_email u1)"
  shows "\<exists>err w2. create e w n em pw = (Inl err, w2) \<and> users w2 = users w
           \<and> err = (if invalid_paths (new_User e n em pw) \<noteq> []
                      then ValidationError (invalid_paths (new_User e n em pw))
                    else if entropy e = None then HashingError
                    else if \<not> store_up e then ConnectivityError
                    else DuplicateKeyError)"
proof -
  let ?d = "new_User e n em pw"
  obtain r w2 where c: "save e w ?d = (r, w2)" by (cases "save e w ?d")
  have "\<exists>err. r = Inl err"
  proof (cases r)
    case (Inr u)
    from save_success [OF c [unfolded Inr]]
    have u: "u_email u = u_email u1"
      and salt: "\<exists>salt. bcrypt_genSalt e 10 = Some salt"
      using same by (auto simp: new_User_def)
    have v: "invalid_paths ?d = []"
      using c Inr save_invalid [of ?d e w] by (cases "invalid_paths ?d = []") auto
    from v obtain u0 where u0: "validate ?d = Inr u0" by (auto simp: validate_def)
    from salt obtain s where s: "bcrypt_genSalt e 10 = Some s" by blast
    have "insertOne e (emit [Validate, GenSalt, Hash] w)
            (u0\<lparr>u_password := bcrypt_hash e (u_password u0) s\<rparr>) = (Inr u, w2)"
      using save_insert [OF u0 s, of w] c Inr by simp
    from insertOne_cases [OF this]
    have "u_email u \<notin> u_email ` set (users w)" by (auto simp: emit_def)
    with u stored show ?thesis by (metis imageI)
  qed simp
  then obtain err where err: "r = Inl err" by blast
  from save_failure [OF c [unfolded err]] c err show ?thesis
    by (simp add: create_def)
qed

text \<open>
  C4, amended. After a successful registration, and after any run of further create
  calls, every create call with the same email fails, whatever its other values and its
  environment; the collection is what it was before this call, and the first user is
  still in it, unmodified. The error is a DuplicateKeyError whenever the call reaches
  the write: its values pass validation, a salt is generated and the store is reached.
  A call that fails earlier reports that earlier failure: a ValidationError naming the
  invalid paths, else a HashingError, else a ConnectivityError.
\<close>

theorem create_same_email_twice:
  assumes first: "create e1 w n1 em p1 = (Inr u1, w1)"
  shows "\<exists>err w2. create e2 (creates between w1) n2 em p2 = (Inl err, w2)
           \<and> users w2 = users (creates between w1) \<and> u1 \<in> set (users w2)
           \<and> err = (if invalid_paths (new_User e2 n2 em p2) \<noteq> []
                      then ValidationError (invalid_paths (new_User e2 n2 em p2))
                    else if entropy e2 = None then HashingError
                    else if \<not> store_up e2 then ConnectivityError
                    else DuplicateKeyError)"
proof -
  from save_success [OF first [unfolded create_def]]
  have same: "cast_string em = Val (u_email u1)" and "u1 \<in> set (users w1)"
    by (auto simp: new_User_def)
  then have stored: "u1 \<in> set (users (creates between w1))"
    using creates_users_grow [of w1 between] by auto
  from create_email_taken [OF stored same, of e2 n2 p2] stored show ?thesis
    by auto
qed

theorem create_same_email_twice_witness:
  "\<exists>err w2. create env1
               (creates [(env2, JStr ''Bob'', JStr ''bob@example.com'', JStr ''pa55word'')] world1)
               (JStr ''Jen'') (JStr ''jen@example.com'') (JStr ''hunter2'')
              = (Inl err, w2)
           \<and> users w2
               = users (creates [(env2, JStr ''Bob'', JStr ''bob@example.com'', JStr ''pa55word'')] world1)
           \<and> jennifer \<in> set (users w2)
           \<and> length (users w2) = 2
           \<and> err = DuplicateKeyError"
proof -
  let ?w = "creates [(env2, JStr ''Bob'', JStr ''bob@example.com'', JStr ''pa55word'')] world1"
  have two: "length (users ?w) = 2"
    by (simp add: create_def save_def validate_def invalid_paths_eq new_User_def pre_save_def
        genSalt_10 bcrypt_hash_def insertOne_def duplicate_key_eq emit_def env2_def world1_def
        jennifer_def Let_def)
  from create_same_email_twice [OF create_jennifer, of env1
      "[(env2, JStr ''Bob'', JStr ''bob@example.com'', JStr ''pa55word'')]"
      "JStr ''Jen''" "JStr ''hunter2''"]
  show ?thesis using two
    by (auto simp: invalid_paths_eq new_User_def env1_def)
qed

section \<open>The responses of the handler\<close>

lemma register_reads:
  assumes "get_prop data ''name'' = Inr n" "get_prop data ''email'' = Inr em"
    "get_prop data ''password'' = Inr pw"
  shows "register e w data = try_save e w (new_User e n em pw)"
  using assms by (simp add: register_def)

text \<open>
  C5. When the save of a registration request fails, with whatever error, the handler
  logs the error and sends one response: status 500 with the body
  \<^verbatim>\<open>{error: "Failed to save user"}\<close>. The response does not depend on the error.
\<close>

theorem register_failure_response:
  assumes reads: "get_prop data ''name'' = Inr n" "get_prop data ''email'' = Inr em"
      "get_prop data ''password'' = Inr pw"
    and failed: "create e w n em pw = (Inl err, w1)"
  shows "register e w data
           = (Returned,
              emit [ConsoleError err,
                    Respond 500 (JObj [(''error'', JStr ''Failed to save user'')])] w1)
         \<and> responses (trace (snd (register e w data)))
           = responses (trace w) @ [(500, JObj [(''error'', JStr ''Failed to save user'')])]"
proof -
  have r: "register e w data = (Returned, emit [ConsoleError err, Respond 500 failure_body] w1)"
    using failed by (simp add: register_reads [OF reads] try_save_def create_def)
  have "responses (trace w1) = responses (trace w)"
    using failed by (simp add: create_def save_responses)
  with r show ?thesis
    by (simp add: emit_def responses_append failure_body_def)
qed

lemma create_duplicate:
  "create env1 world1 (JStr ''Jennifer'') (JStr ''jen@example.com'') (JStr ''secret123'')
     = (Inl DuplicateKeyError, emit [Validate, GenSalt, Hash, InsertOne] world1)"
  by (simp add: create_def save_def validate_def invalid_paths_eq new_User_def pre_save_def
      genSalt_10 insertOne_def duplicate_key_eq emit_def env1_def world1_def jennifer_def Let_def)

theorem register_failure_response_witness:
  "register env1 world1 signup
     = (Returned,
        emit [ConsoleError DuplicateKeyError,
              Respond 500 (JObj [(''error'', JStr ''Failed to save user'')])]
          (emit [Validate, GenSalt, Hash, InsertOne] world1))
   \<and> responses (trace (snd (register env1 world1 signup)))
     = responses (trace world1) @ [(500, JObj [(''error'', JStr ''Failed to save user'')])]"
  by (rule register_failure_response [OF _ _ _ create_duplicate])
     (simp_all add: signup_def)

text \<open>
  C7. When the save of a registration request succeeds, the handler sends one response:
  status 200 with the JSON of the saved user, the user that is now in the collection.
  The body carries the \<^verbatim>\<open>_id\<close> generated for the document and, as
  \<^verbatim>\<open>password\<close>, the digest of the submitted password.
\<close>

theorem register_success_response:
  assumes reads: "get_prop data ''name'' = Inr n" "get_prop data ''email'' = Inr em"
      "get_prop data ''password'' = Inr pw"
    and saved: "create e w n em pw = (Inr savedUser, w1)"
  shows "fst (register e w data) = Returned
         \<and> responses (trace (snd (register e w data)))
           = responses (trace w) @ [(200, toJSON savedUser)]
         \<and> savedUser \<in> set (users (snd (register e w data)))
         \<and> get_prop (toJSON savedUser) ''_id'' = Inr (JStr (objectId e))
         \<and> (\<exists>plain salt. cast_string pw = Val plain \<and> bcrypt_genSalt e 10 = Some salt
               \<and> get_prop (toJSON savedUser) ''password''
                   = Inr (JStr (bcrypt_hash e plain salt)))
         \<and> get_prop (toJSON savedUser) ''name'' = Inr (JStr (u_name savedUser))
         \<and> get_prop (toJSON savedUser) ''email'' = Inr (JStr (u_email savedUser))"
proof -
  have r: "register e w data
      = (Returned, emit [ConsoleLog (toJSON savedUser), Respond 200 (toJSON savedUser)] w1)"
    using saved by (simp add: register_reads [OF reads] try_save_def create_def)
  have resp: "responses (trace w1) = responses (trace w)"
    using saved by (simp add: create_def save_responses)
  from save_success [OF saved [unfolded create_def]]
  obtain p salt where "cast_string pw = Val p" "bcrypt_genSalt e 10 = Some salt"
    "u_password savedUser = bcrypt_hash e p salt" "u_id savedUser = objectId e"
    "users w1 = users w @ [savedUser]"
    by (auto simp: new_User_def)
  with r resp show ?thesis
    by (simp add: emit_def responses_append toJSON_def)
qed

theorem register_success_response_witness:
  "fst (register env0 world0 signup) = Returned
   \<and> responses (trace (snd (register env0 world0 signup)))
     = responses (trace world0) @ [(200, toJSON jennifer)]
   \<and> jennifer \<in> set (users (snd (register env0 world0 signup)))
   \<and> get_prop (toJSON jennifer) ''_id'' = Inr (JStr (objectId env0))
   \<and> (\<exists>plain salt. cast_string (JStr ''secret123'') = Val plain
         \<and> bcrypt_genSalt env0 10 = Some salt
         \<and> get_prop (toJSON jennifer) ''password'' = Inr (JStr (bcrypt_hash env0 plain salt)))
   \<and> get_prop (toJSON jennifer) ''name'' = Inr (JStr (u_name jennifer))
   \<and> get_prop (toJSON jennifer) ''email'' = Inr (JStr (u_email jennifer))"
  by (rule register_success_response [OF _ _ _ create_jennifer])
     (simp_all add: signup_def)


section \<open>Every request body\<close>

lemma get_prop_defined:
  "data \<noteq> JUndefined \<Longrightarrow> data \<noteq> JNull \<Longrightarrow> \<exists>v. get_prop data k = Inr v"
  by (cases data) simp_all

text \<open>
  What the body parser never hands over: with \<^verbatim>\<open>req.body\<close> undefined the read of
  \<^verbatim>\<open>data.name\<close>, which stands before the \<^verbatim>\<open>try\<close>, throws.
\<close>

lemma register_undefined_body:
  "register e w JUndefined = (Threw TypeError, w)"
  by (simp add: register_def)

text \<open>
  C9. \<^verbatim>\<open>express.json()\<close> (index.js, line 14) hands the handler the parsed object or
  array, and the empty object when the request has no JSON body: never
  \<^verbatim>\<open>undefined\<close> or \<^verbatim>\<open>null\<close>. For every such body, the empty object and an
  array included, the handler returns, without throwing, after sending exactly
  one response: status 200 with the saved user as JSON when the save succeeds (the saved
  user is then the one added to the collection), and status 500 with the fixed error
  body when it fails (the collection is then unchanged).
\<close>

theorem register_one_response:
  assumes "data \<noteq> JUndefined" "data \<noteq> JNull"
  shows "\<exists>n em pw w'.
           get_prop data ''name'' = Inr n \<and> get_prop data ''email'' = Inr em
         \<and> get_prop data ''password'' = Inr pw
         \<and> register e w data = (Returned, w')
         \<and> (case fst (create e w n em pw) of
               Inr savedUser \<Rightarrow>
                 responses (trace w') = responses (trace w) @ [(200, toJSON savedUser)]
                 \<and> users w' = users w @ [savedUser]
             | Inl err \<Rightarrow>
                 responses (trace w')
                   = responses (trace w) @ [(500, JObj [(''error'', JStr ''Failed to save user'')])]
                 \<and> users w' = users w)"
proof -
  from assms obtain n em pw where reads: "get_prop data ''name'' = Inr n"
    "get_prop data ''email'' = Inr em" "get_prop data ''password'' = Inr pw"
    using get_prop_defined by meson
  obtain res w1 where c: "save e w (new_User e n em pw) = (res, w1)"
    by (cases "save e w (new_User e n em pw)")
  have resp: "responses (trace w1) = responses (trace w)"
    using c by (rule save_responses)
  show ?thesis
  proof (cases res)
    case (Inl err)
    with c have "register e w data
        = (Returned, emit [ConsoleError err, Respond 500 failure_body] w1)"
      by (simp add: register_reads [OF reads] try_save_def)
    moreover have "users w1 = users w"
      using save_failure [OF c [unfolded Inl]] by simp
    ultimately show ?thesis using resp reads c Inl
      by (simp add: emit_def responses_append failure_body_def create_def)
  next
    case (Inr u)
    with c have r: "register e w data
        = (Returned, emit [ConsoleLog (toJSON u), Respond 200 (toJSON u)] w1)"
      by (simp add: register_reads [OF reads] try_save_def)
    from save_success [OF c [unfolded Inr]] have "users w1 = users w @ [u]" by auto
    with r resp reads c Inr show ?thesis
      by (simp add: emit_def responses_append create_def)
  qed
qed

lemma create_empty_body:
  "fst (create env0 world0 JUndefined JUndefined JUndefined)
     = Inl (ValidationError [''name'', ''email'', ''password''])"
  by (simp add: create_def save_def validate_def invalid_paths_eq new_User_def)

theorem register_one_response_witness:
  "\<exists>w'. register env0 world0 (JObj []) = (Returned, w')
         \<and> responses (trace w')
             = responses (trace world0) @ [(500, JObj [(''error'', JStr ''Failed to save user'')])]
         \<and> users w' = users world0"
  using register_one_response [of "JObj []" env0 world0]
  by (simp add: create_empty_body)

text \<open>
  C10. Only the properties \<^verbatim>\<open>name\<close>, \<^verbatim>\<open>email\<close> and \<^verbatim>\<open>password\<close> of the
  request body reach the handler's work: two bodies that agree on these three lead to
  the same completion, the same collection and the same trace (responses included), so
  any other property of the body is neither stored nor sent back.
\<close>

theorem register_three_properties_only:
  assumes "get_prop d1 ''name'' = get_prop d2 ''name''"
    and "get_prop d1 ''email'' = get_prop d2 ''email''"
    and "get_prop d1 ''password'' = get_prop d2 ''password''"
  shows "register e w d1 = register e w d2"
  unfolding register_def assms by (rule refl)

theorem register_three_properties_only_witness:
  "register env0 world0
     (JObj [(''name'', JStr ''Jennifer''), (''email'', JStr ''jen@example.com''),
            (''password'', JStr ''secret123''), (''isAdmin'', JBool True),
            (''_id'', JStr ''000000000000000000000001'')])
   = register env0 world0 signup"
  by (rule register_three_properties_only) (simp_all add: signup_def)


section \<open>Startup with a failing connection\<close>

text \<open>
  C8. When \<^verbatim>\<open>ATLAS_URL\<close> is absent, or is a string that does not lead to a
  connection, the rejection of \<^verbatim>\<open>mongoose.connect\<close> is caught and logged as an
  error, the success message is not logged, the process does not exit, and the server
  listens on port 3000.
\<close>

theorem startup_survives_failed_connection:
  assumes "atlasUrl = None \<or> (\<exists>u. atlasUrl = Some u \<and> \<not> connects u)"
  shows "(\<exists>err. Err ''Error connecting to MongoDB:'' err \<in> set (console (startup connects atlasUrl)))
         \<and> Out ''Connected to MongoDB'' \<notin> set (console (startup connects atlasUrl))
         \<and> listening (startup connects atlasUrl) = Some 3000
         \<and> \<not> exited (startup connects atlasUrl)"
proof -
  from assms obtain err where "mongoose_connect connects atlasUrl = Rejected err"
    by (auto simp: mongoose_connect_def)
  then show ?thesis
    by (auto simp: startup_def app_listen_def console_log_def console_error_def port_def Let_def)
qed

theorem startup_survives_failed_connection_witness:
  "(\<exists>err. Err ''Error connecting to MongoDB:'' err \<in> set (console (startup (\<lambda>u. False) None)))
   \<and> Out ''Connected to MongoDB'' \<notin> set (console (startup (\<lambda>u. False) None))
   \<and> listening (startup (\<lambda>u. False) None) = Some 3000
   \<and> \<not> exited (startup (\<lambda>u. False) None)"
  using startup_survives_failed_connection [of None "\<lambda>u. False"] by simp

section \<open>Hashing twice\<close>

lemma pre_save_salted:
  "entropy e = Some r \<Longrightarrow>
     pre_save e w u =
       (Inr (u\<lparr>u_password := bcrypt_hash e (u_password u) (''$2a$10$'' @ r)\<rparr>),
        emit [GenSalt, Hash] w)"
  by (simp add: pre_save_def genSalt_10 Let_def)

lemma bcrypt_hash_entropy [simp]:
  "bcrypt_hash (e\<lparr>entropy := x\<rparr>) plain salt = bcrypt_hash e plain salt"
  by (simp add: bcrypt_hash_def)

lemma bcrypt_compare_hash:
  assumes "length salt = 29" "length (core e plain salt) = 31"
  shows "bcrypt_compare e plain (bcrypt_hash e plain salt)"
  using assms by (simp add: bcrypt_compare_def bcrypt_hash_def)

text \<open>
  C6. Two runs of the hashing hook on the same plain-text password, each with its own
  fresh salt (the random characters of the second differ from those of the first),
  produce two different digests, and each digest verifies against the plain text under
  \<open>bcrypt_compare\<close>. The salts and the encoded digests have their lengths of 29 and 31
  characters.
\<close>

theorem hashing_twice:
  assumes len: "length r1 = 22" "length r2 = 22"
    and fresh: "r1 \<noteq> r2"
    and digest_len: "length (core e plain (''$2a$10$'' @ r1)) = 31"
      "length (core e plain (''$2a$10$'' @ r2)) = 31"
    and pw: "u_password u = plain"
  shows "\<exists>h1 h2 w1' w2'.
           pre_save (e\<lparr>entropy := Some r1\<rparr>) w1 u = (Inr h1, w1')
         \<and> pre_save (e\<lparr>entropy := Some r2\<rparr>) w2 u = (Inr h2, w2')
         \<and> u_password h1 \<noteq> u_password h2
         \<and> bcrypt_compare e plain (u_password h1)
         \<and> bcrypt_compare e plain (u_password h2)"
proof -
  let ?s1 = "''$2a$10$'' @ r1" and ?s2 = "''$2a$10$'' @ r2"
  have differ: "bcrypt_hash e plain ?s1 \<noteq> bcrypt_hash e plain ?s2"
    using len fresh by (simp add: bcrypt_hash_def)
  have "bcrypt_compare e plain (bcrypt_hash e plain ?s1)"
    using len(1) digest_len(1) by (intro bcrypt_compare_hash) simp_all
  moreover have "bcrypt_compare e plain (bcrypt_hash e plain ?s2)"
    using len(2) digest_len(2) by (intro bcrypt_compare_hash) simp_all
  ultimately show ?thesis
    using differ pw by (simp add: pre_save_salted)
qed

theorem hashing_twice_witness:
  "\<exists>h1 h2 w1' w2'.
     pre_save (env0\<lparr>entropy := Some ''Zb3BwzjesDmL9HZrZNKW6e''\<rparr>) world0 applicant = (Inr h1, w1')
   \<and> pre_save (env0\<lparr>entropy := Some ''N9qo8uLOickgx2ZMRZoMye''\<rparr>) world1 applicant = (Inr h2, w2')
   \<and> u_password h1 \<noteq> u_password h2
   \<and> bcrypt_compare env0 (u_password applicant) (u_password h1)
   \<and> bcrypt_compare env0 (u_password applicant) (u_password h2)"
  by (rule hashing_twice) (simp_all add: env0_def applicant_def)

end
